theory Spec2Isabelle
  imports Main "HOL-Library.Word" "HOL-Library.AList"
begin

section \<open>JavaScript values the client handles\<close>

text \<open>
  A parsed response body is whatever \<^verbatim>\<open>response.json()\<close> resolves to: any JSON value.
  The number type is left open (\<open>'n\<close>): the client tests a number for truthiness,
  which is being different from zero, and an error message that is a number is printed
  by the platform.  An object is the list of its own
  properties (distinct keys, as \<^verbatim>\<open>JSON.parse\<close> leaves them).  A JavaScript value that
  may be \<^verbatim>\<open>undefined\<close> is an \<open>option\<close>, \<open>None\<close> standing for \<^verbatim>\<open>undefined\<close>.
  Text that the client compares with its own literals or only passes on is a list of
  characters with codes below 256.  The job id and the device code, which
  \<^verbatim>\<open>encodeURIComponent\<close> inspects unit by unit, are lists of UTF-16 code units, as
  JavaScript strings are.
\<close>

datatype 'n json =
    JNull
  | JBool bool
  | JNum 'n
  | JStr string
  | JArr "'n json list"
  | JObj "(string \<times> 'n json) list"

type_synonym byte = "8 word"

text \<open>JavaScript's ToBoolean, as the operators \<^verbatim>\<open>||\<close> and \<^verbatim>\<open>!\<close> apply it.\<close>

fun truthy :: "('n::zero) json option \<Rightarrow> bool" where
  "truthy None = False"
| "truthy (Some JNull) = False"
| "truthy (Some (JBool b)) = b"
| "truthy (Some (JNum n)) = (n \<noteq> 0)"
| "truthy (Some (JStr s)) = (s \<noteq> [])"
| "truthy (Some (JArr xs)) = True"
| "truthy (Some (JObj kvs)) = True"

text \<open>\<^verbatim>\<open>a || b\<close>: the left operand when it is truthy, the right one otherwise.\<close>

definition js_or :: "('n::zero) json option \<Rightarrow> 'n json option \<Rightarrow> 'n json option" where
  "js_or a b = (if truthy a then a else b)"

text \<open>
  \<^verbatim>\<open>data.k\<close> on a value other than \<^verbatim>\<open>null\<close>, for the property names this client reads
  (\<^verbatim>\<open>success\<close>, \<^verbatim>\<open>token_valid\<close>, \<^verbatim>\<open>authenticated\<close>, \<^verbatim>\<open>message\<close>, \<^verbatim>\<open>error\<close>): an object
  gives its own property; primitives and arrays inherit none of these names, so the
  read gives \<^verbatim>\<open>undefined\<close>.  Reading a property of \<^verbatim>\<open>null\<close> throws and is handled where
  it happens, in \<open>request_try\<close>.
\<close>

fun get_prop :: "'n json \<Rightarrow> string \<Rightarrow> 'n json option" where
  "get_prop (JObj kvs) k = map_of kvs k"
| "get_prop v k = None"

text \<open>
  JavaScript's ToString on a parsed JSON value, with the printing of numbers
  (\<open>pn\<close>) left to the platform.  \<open>None\<close> says that the conversion throws a
  \<^verbatim>\<open>TypeError\<close>: an object with an own property \<^verbatim>\<open>toString\<close> (which JSON cannot make
  callable) has no primitive value; any other object prints as \<^verbatim>\<open>[object Object]\<close>.  An
  array joins the conversions of its elements with commas, \<^verbatim>\<open>null\<close> elements printing
  as nothing, and throws when one of them throws.
\<close>

fun join_comma :: "string list \<Rightarrow> string" where
  "join_comma [] = []"
| "join_comma [x] = x"
| "join_comma (x # y # ys) = x @ '','' @ join_comma (y # ys)"

fun toString :: "('n \<Rightarrow> string) \<Rightarrow> 'n json \<Rightarrow> string option" where
  "toString pn JNull = Some ''null''"
| "toString pn (JBool b) = Some (if b then ''true'' else ''false'')"
| "toString pn (JNum n) = Some (pn n)"
| "toString pn (JStr s) = Some s"
| "toString pn (JArr xs) =
     map_option join_comma
       (those (map (\<lambda>x. if x = JNull then Some [] else toString pn x) xs))"
| "toString pn (JObj kvs) =
     (if ''toString'' \<in> fst ` set kvs then None else Some ''[object Object]'')"

text \<open>The message of the \<^verbatim>\<open>TypeError\<close> that Node raises for a failed conversion.\<close>

definition to_primitive_message :: string where
  "to_primitive_message = ''Cannot convert object to primitive value''"

text \<open>Truthiness of a string argument that may be missing (\<^verbatim>\<open>!jobId\<close>, \<^verbatim>\<open>!this.apiToken\<close>).\<close>

fun truthy_str :: "'a list option \<Rightarrow> bool" where
  "truthy_str None = False"
| "truthy_str (Some s) = (s \<noteq> [])"

text \<open>\<^verbatim>\<open>s.startsWith(p)\<close> and \<^verbatim>\<open>s.includes(p)\<close>.\<close>

fun startsWith :: "string \<Rightarrow> string \<Rightarrow> bool" where
  "startsWith s [] = True"
| "startsWith [] (p # ps) = False"
| "startsWith (c # cs) (p # ps) = (c = p \<and> startsWith cs ps)"

fun includes_str :: "string \<Rightarrow> string \<Rightarrow> bool" where
  "includes_str [] p = (p = [])"
| "includes_str (c # cs) p = (startsWith (c # cs) p \<or> includes_str cs p)"

text \<open>
  UTF-16 code units.  A string is well formed when every surrogate stands in a pair, a
  high one (D800 to DBFF) followed by a low one (DC00 to DFFF).
  \<^verbatim>\<open>encodeURIComponent\<close> throws a \<^verbatim>\<open>URIError\<close> on every other string; Node's message
  for it is \<^verbatim>\<open>URI malformed\<close>.
\<close>

type_synonym code_unit = "16 word"

definition is_high :: "code_unit \<Rightarrow> bool" where
  "is_high u = (0xD800 \<le> u \<and> u \<le> 0xDBFF)"

definition is_low :: "code_unit \<Rightarrow> bool" where
  "is_low u = (0xDC00 \<le> u \<and> u \<le> 0xDFFF)"

fun well_formed_utf16 :: "code_unit list \<Rightarrow> bool" where
  "well_formed_utf16 [] = True"
| "well_formed_utf16 [u] = (\<not> is_high u \<and> \<not> is_low u)"
| "well_formed_utf16 (u # v # us) =
     (if is_high u then is_low v \<and> well_formed_utf16 us
      else \<not> is_low u \<and> well_formed_utf16 (v # us))"

definition uri_malformed_message :: string where
  "uri_malformed_message = ''URI malformed''"

text \<open>The code units of a text of characters below 256.\<close>

definition utf16 :: "string \<Rightarrow> code_unit list" where
  "utf16 s = map (\<lambda>ch. of_nat (of_char ch)) s"

text \<open>The decimal text of a status code, as a template literal prints a number.\<close>

definition digit_char :: "nat \<Rightarrow> char" where
  "digit_char d = ''0123456789'' ! d"

function string_of_nat :: "nat \<Rightarrow> string" where
  "string_of_nat n =
     (if n < 10 then [digit_char n] else string_of_nat (n div 10) @ [digit_char (n mod 10)])"
  by pat_completeness auto
termination
  by (relation "measure (\<lambda>n. n)") auto

declare string_of_nat.simps [simp del]

text \<open>
  \<^verbatim>\<open>buffer.toString('base64')\<close>: the standard alphabet of RFC 4648, three bytes to four
  characters, padded with \<^verbatim>\<open>=\<close>.
\<close>

definition b64_char :: "nat \<Rightarrow> char" where
  "b64_char i =
     ''ABCDEFGHIJKLMNOPQRSTUVWXYZabcdefghijklmnopqrstuvwxyz0123456789+/'' ! i"

fun base64 :: "byte list \<Rightarrow> string" where
  "base64 [] = []"
| "base64 [a] =
     (let n = unat a * 65536
      in [b64_char (n div 262144), b64_char (n div 4096 mod 64)] @ ''=='')"
| "base64 [a, b] =
     (let n = unat a * 65536 + unat b * 256
      in [b64_char (n div 262144), b64_char (n div 4096 mod 64),
          b64_char (n div 64 mod 64)] @ ''='')"
| "base64 (a # b # c # rest) =
     (let n = unat a * 65536 + unat b * 256 + unat c
      in [b64_char (n div 262144), b64_char (n div 4096 mod 64),
          b64_char (n div 64 mod 64), b64_char (n mod 64)] @ base64 rest)"

text \<open>\<^verbatim>\<open>buffer[i]\<close>: the byte, or \<^verbatim>\<open>undefined\<close> past the end.\<close>

definition byte_at :: "byte list \<Rightarrow> nat \<Rightarrow> byte option" where
  "byte_at buffer i = (if i < length buffer then Some (buffer ! i) else None)"

section \<open>errors.js: the error classes\<close>

text \<open>
  One record for the six classes; \<open>name\<close> is \<^verbatim>\<open>this.name\<close>, \<open>message\<close> the string that
  \<^verbatim>\<open>Error\<close>'s constructor stores.  \<open>statusCode\<close> is \<open>None\<close> for \<^verbatim>\<open>null\<close>; \<open>response\<close> is
  \<open>None\<close> when the constructor got no such argument and \<open>Some JNull\<close> for \<^verbatim>\<open>null\<close>.
\<close>

record 'n rc_error =
  name :: string
  message :: string
  statusCode :: "nat option"
  response :: "'n json option"

text \<open>
  \<^verbatim>\<open>super(message)\<close> in \<^verbatim>\<open>RenderCADError\<close> runs \<^verbatim>\<open>Error\<close>'s constructor, which turns a
  message other than \<^verbatim>\<open>undefined\<close> into a string with ToString and may throw there;
  without a message the error reads the empty string of \<^verbatim>\<open>Error.prototype\<close>.  A
  constructor therefore gives the new error (\<open>Inr\<close>) or the message of the
  \<^verbatim>\<open>TypeError\<close> it threw (\<open>Inl\<close>).
\<close>

definition RenderCADError ::
  "('n \<Rightarrow> string) \<Rightarrow> 'n json option \<Rightarrow> nat option \<Rightarrow> 'n json option
     \<Rightarrow> string + 'n rc_error" where
  "RenderCADError pn msg code resp =
     (case (case msg of None \<Rightarrow> Some [] | Some v \<Rightarrow> toString pn v) of
        None \<Rightarrow> Inl to_primitive_message
      | Some str \<Rightarrow>
          Inr \<lparr>name = ''RenderCADError'', message = str, statusCode = code,
               response = resp\<rparr>)"

text \<open>A subclass sets \<^verbatim>\<open>this.name\<close> once \<^verbatim>\<open>super(...)\<close> has returned.\<close>

definition as_subclass :: "string \<Rightarrow> string + 'n rc_error \<Rightarrow> string + 'n rc_error" where
  "as_subclass cls made =
     (case made of Inl m \<Rightarrow> Inl m | Inr e \<Rightarrow> Inr (e\<lparr>name := cls\<rparr>))"

definition BadRequestError ::
  "(('n::zero) \<Rightarrow> string) \<Rightarrow> 'n json option \<Rightarrow> 'n json option \<Rightarrow> string + 'n rc_error" where
  "BadRequestError pn msg resp =
     as_subclass ''BadRequestError''
       (RenderCADError pn (js_or msg (Some (JStr ''Invalid request''))) (Some 400) resp)"

definition UnauthorizedError ::
  "(('n::zero) \<Rightarrow> string) \<Rightarrow> 'n json option \<Rightarrow> 'n json option \<Rightarrow> string + 'n rc_error" where
  "UnauthorizedError pn msg resp =
     as_subclass ''UnauthorizedError''
       (RenderCADError pn (js_or msg (Some (JStr ''Invalid API token''))) (Some 401) resp)"

definition NotFoundError ::
  "(('n::zero) \<Rightarrow> string) \<Rightarrow> 'n json option \<Rightarrow> 'n json option \<Rightarrow> string + 'n rc_error" where
  "NotFoundError pn msg resp =
     as_subclass ''NotFoundError''
       (RenderCADError pn (js_or msg (Some (JStr ''Resource not found''))) (Some 404) resp)"

definition RateLimitError ::
  "(('n::zero) \<Rightarrow> string) \<Rightarrow> 'n json option \<Rightarrow> 'n json option \<Rightarrow> string + 'n rc_error" where
  "RateLimitError pn msg resp =
     as_subclass ''RateLimitError''
       (RenderCADError pn (js_or msg (Some (JStr ''Monthly limit exceeded''))) (Some 429) resp)"

definition ServerError ::
  "(('n::zero) \<Rightarrow> string) \<Rightarrow> 'n json option \<Rightarrow> 'n json option \<Rightarrow> string + 'n rc_error" where
  "ServerError pn msg resp =
     as_subclass ''ServerError''
       (RenderCADError pn (js_or msg (Some (JStr ''Server error''))) (Some 500) resp)"

text \<open>
  What a call can throw: an instance of \<^verbatim>\<open>RenderCADError\<close> (the base class or one of
  its five subclasses), or any other exception, kept by its \<^verbatim>\<open>message\<close> (a rejected
  \<^verbatim>\<open>fetch\<close>, a \<^verbatim>\<open>TypeError\<close>, a file-system error).
\<close>

datatype 'n thrown =
    RenderCAD "'n rc_error"
  | OtherError string

text \<open>
  \<^verbatim>\<open>throw new X(...)\<close>: the new error is thrown, or, when the constructor itself threw,
  its \<^verbatim>\<open>TypeError\<close>.
\<close>

fun throw_new :: "string + 'n rc_error \<Rightarrow> 'n thrown" where
  "throw_new (Inr e) = RenderCAD e"
| "throw_new (Inl m) = OtherError m"



section \<open>index.js: the client\<close>

record client =
  apiToken :: "string option"
  baseUrl :: string

text \<open>The constructor: \<^verbatim>\<open>new RenderCADClient(apiToken, {baseUrl})\<close>.\<close>

definition new_client :: "string option \<Rightarrow> string option \<Rightarrow> client" where
  "new_client token base =
     \<lparr>apiToken = token,
      baseUrl = (if truthy_str base then (case base of Some b \<Rightarrow> b | None \<Rightarrow> [])
                 else ''https://rendercad.ai'')\<rparr>"

definition setApiToken :: "client \<Rightarrow> string option \<Rightarrow> client" where
  "setApiToken c token = c\<lparr>apiToken := token\<rparr>"

text \<open>
  The options of \<open>request\<close> and the configuration handed to \<^verbatim>\<open>fetch\<close> have one shape.
  Headers are a list of pairs in insertion order.
\<close>

record fetch_options =
  http_method :: "string option"
  body :: "string option"
  headers :: "(string \<times> string) list option"

text \<open>
  The transport and the file system are outside the program.  A call to \<^verbatim>\<open>fetch\<close> either
  rejects (with an error carrying a message) or resolves to a response with a status
  and a body; \<open>json = None\<close> says that \<^verbatim>\<open>response.json()\<close> rejects (the body is not
  JSON, or could not be read).  \<^verbatim>\<open>response.ok\<close> is, by the Fetch standard, a status
  from 200 to 299.
\<close>

record 'n http_response =
  status :: nat
  json :: "'n json option"

definition ok :: "'n http_response \<Rightarrow> bool" where
  "ok r = (200 \<le> status r \<and> status r \<le> 299)"

datatype 'n fetch_outcome =
    Rejected string
  | Resolved "'n http_response"

text \<open>
  The environment a call runs in: what \<^verbatim>\<open>fetch\<close> and \<^verbatim>\<open>fs.readFile\<close> answer, how the
  platform prints a number, and the platform's text functions whose results only travel
  into the request (\<^verbatim>\<open>path.extname\<close>, \<^verbatim>\<open>toLowerCase\<close>, the percent-encoding of
  \<^verbatim>\<open>URLSearchParams\<close>, the quoting of a string by \<^verbatim>\<open>JSON.stringify\<close>, and the text
  \<^verbatim>\<open>encodeURIComponent\<close> gives for a well-formed string; that it throws on any other
  string is part of the model, see \<open>encode_component\<close>).
\<close>

record 'n runtime =
  fetch :: "string \<Rightarrow> fetch_options \<Rightarrow> 'n fetch_outcome"
  readFile :: "string \<Rightarrow> string + byte list"
  number_toString :: "'n \<Rightarrow> string"
  extname :: "string \<Rightarrow> string"
  toLowerCase :: "string \<Rightarrow> string"
  encodeURIComponent :: "code_unit list \<Rightarrow> string"
  urlencode :: "string \<Rightarrow> string"
  json_quote :: "string \<Rightarrow> string"

text \<open>The side effects of a call, in the order they happen.\<close>

datatype effect =
    NetworkCall string fetch_options
  | FileRead string

subsection \<open>Request headers\<close>

definition getHeaders :: "client \<Rightarrow> (string \<times> string) list" where
  "getHeaders c =
     (let headers = [(''Content-Type'', ''application/json''),
                     (''Accept'', ''*/*''),
                     (''User-Agent'', ''rendercad-ai-node-client/1.0.0'')]
      in case apiToken c of
           None \<Rightarrow> headers
         | Some t \<Rightarrow>
             if t \<noteq> [] then AList.update ''Authorization'' (''Bearer '' @ t) headers
             else headers)"

text \<open>Object spread \<^verbatim>\<open>{...a, ...b}\<close> on header lists.\<close>

definition spread :: "(string \<times> string) list \<Rightarrow> (string \<times> string) list \<Rightarrow> (string \<times> string) list" where
  "spread a b = foldl (\<lambda>acc kv. AList.update (fst kv) (snd kv) acc) a b"

subsection \<open>The request layer\<close>

text \<open>The message of the \<^verbatim>\<open>TypeError\<close> that Node raises for \<^verbatim>\<open>null.success\<close>.\<close>

definition null_read_message :: string where
  "null_read_message = ''Cannot read properties of null (reading 'success')''"

text \<open>
  The \<^verbatim>\<open>try\<close> block of \<^verbatim>\<open>_request\<close> once \<^verbatim>\<open>fetch\<close> has resolved: the body is parsed,
  \<^verbatim>\<open>{}\<close> standing in when parsing rejects; then the body's own failure flag is
  looked at, then the status.
\<close>

definition request_try ::
  "(('n::zero) \<Rightarrow> string) \<Rightarrow> 'n http_response \<Rightarrow> 'n thrown + 'n json" where
  "request_try pn resp =
     (let data = (case json resp of None \<Rightarrow> JObj [] | Some d \<Rightarrow> d)
      in if data = JNull then Inl (OtherError null_read_message)
         else if get_prop data ''success'' = Some (JBool False) then
           (if get_prop data ''token_valid'' = Some (JBool False)
               \<or> get_prop data ''authenticated'' = Some (JBool False)
            then Inl (throw_new (UnauthorizedError pn
                   (js_or (get_prop data ''message'') (Some (JStr ''Invalid API token'')))
                   (Some data)))
            else
              (let errorMessage =
                     js_or (js_or (get_prop data ''message'') (get_prop data ''error''))
                           (Some (JStr ''Request failed''))
               in Inl (throw_new (BadRequestError pn errorMessage (Some data)))))
         else if \<not> ok resp then
           (let errorMessage =
                  js_or (js_or (get_prop data ''message'') (get_prop data ''error''))
                        (Some (JStr (''HTTP '' @ string_of_nat (status resp))))
            in if status resp = 400
               then Inl (throw_new (BadRequestError pn errorMessage (Some data)))
               else if status resp = 401
               then Inl (throw_new (UnauthorizedError pn errorMessage (Some data)))
               else if status resp = 404
               then Inl (throw_new (NotFoundError pn errorMessage (Some data)))
               else if status resp = 429
               then Inl (throw_new (RateLimitError pn errorMessage (Some data)))
               else if status resp = 500
               then Inl (throw_new (ServerError pn errorMessage (Some data)))
               else Inl (throw_new
                      (RenderCADError pn errorMessage (Some (status resp)) (Some data))))
         else Inr data)"

text \<open>
  The \<^verbatim>\<open>catch\<close> block of \<^verbatim>\<open>_request\<close>: an instance of \<^verbatim>\<open>RenderCADError\<close> is thrown
  again, anything else is wrapped.
\<close>

fun request_catch :: "('n \<Rightarrow> string) \<Rightarrow> 'n thrown + 'n json \<Rightarrow> 'n thrown + 'n json" where
  "request_catch pn (Inr data) = Inr data"
| "request_catch pn (Inl (RenderCAD e)) = Inl (RenderCAD e)"
| "request_catch pn (Inl (OtherError m)) =
     Inl (throw_new
       (RenderCADError pn (Some (JStr (''Request failed: '' @ m))) None (Some JNull)))"

text \<open>
  The configuration \<^verbatim>\<open>_request\<close> builds: the options, with the client's headers (without
  \<^verbatim>\<open>Content-Type\<close> for a \<^verbatim>\<open>GET\<close> or a request without body) under the headers of the
  options.
\<close>

definition request_config :: "client \<Rightarrow> fetch_options \<Rightarrow> fetch_options" where
  "request_config c options =
     (let baseHeaders = getHeaders c;
          baseHeaders' =
            (if http_method options = Some ''GET'' \<or> \<not> truthy_str (body options)
             then AList.delete ''Content-Type'' baseHeaders else baseHeaders)
      in options\<lparr>headers :=
           Some (spread baseHeaders' (case headers options of None \<Rightarrow> [] | Some h \<Rightarrow> h))\<rparr>)"

text \<open>
  \<^verbatim>\<open>_request\<close>: one network call, whose answer the environment gives; the result is the
  list of effects and what the call returns (\<open>Inr\<close>) or throws (\<open>Inl\<close>).
\<close>

definition request ::
  "('n::zero) runtime \<Rightarrow> client \<Rightarrow> string \<Rightarrow> fetch_options
     \<Rightarrow> effect list \<times> ('n thrown + 'n json)" where
  "request rt c endpoint options =
     (let url = baseUrl c @ endpoint;
          config = request_config c options
      in ([NetworkCall url config],
          request_catch (number_toString rt)
            (case fetch rt url config of
               Rejected m \<Rightarrow> Inl (OtherError m)
             | Resolved resp \<Rightarrow> request_try (number_toString rt) resp)))"

subsection \<open>The image encoder\<close>

text \<open>
  The image argument: a string, a \<^verbatim>\<open>Buffer\<close>, or a value that is neither.
  \<^verbatim>\<open>_encodeImage\<close> reads a file only for a string that is neither a data URL nor free
  of \<^verbatim>\<open>/\<close>; a failed read throws the file-system error.
\<close>

datatype image_arg =
    ImgStr string
  | ImgBuf "byte list"
  | ImgOther

definition mimeTypes :: "(string \<times> string) list" where
  "mimeTypes = [(''.jpg'', ''image/jpeg''), (''.jpeg'', ''image/jpeg''),
                (''.png'', ''image/png''), (''.gif'', ''image/gif''),
                (''.webp'', ''image/webp'')]"

text \<open>The signature test on a buffer's first bytes.\<close>

definition buffer_mime :: "byte list \<Rightarrow> string" where
  "buffer_mime buffer =
     (if byte_at buffer 0 = Some 0x89 \<and> byte_at buffer 1 = Some 0x50 then ''image/png''
      else if byte_at buffer 0 = Some 0x47 \<and> byte_at buffer 1 = Some 0x49 then ''image/gif''
      else if byte_at buffer 0 = Some 0x52 \<and> byte_at buffer 1 = Some 0x49
              \<and> byte_at buffer 2 = Some 0x46 \<and> byte_at buffer 3 = Some 0x46
           then ''image/webp''
      else ''image/jpeg'')"

definition encodeImage ::
  "('n::zero) runtime \<Rightarrow> image_arg \<Rightarrow> effect list \<times> ('n thrown + string)" where
  "encodeImage rt img =
     (case img of
        ImgStr s \<Rightarrow>
          if startsWith s ''data:image/'' then ([], Inr s)
          else if \<not> includes_str s ''/'' then ([], Inr (''data:image/jpeg;base64,'' @ s))
          else
            (case readFile rt s of
               Inl m \<Rightarrow> ([FileRead s], Inl (OtherError m))
             | Inr buffer \<Rightarrow>
                 (let ext = toLowerCase rt (extname rt s);
                      mimeType = (case map_of mimeTypes ext of
                                    Some m \<Rightarrow> m | None \<Rightarrow> ''image/jpeg'')
                  in ([FileRead s],
                      Inr (''data:'' @ mimeType @ '';base64,'' @ base64 buffer))))
      | ImgBuf buffer \<Rightarrow>
          ([], Inr (''data:'' @ buffer_mime buffer @ '';base64,'' @ base64 buffer))
      | ImgOther \<Rightarrow>
          ([], Inl (throw_new (BadRequestError (number_toString rt)
                 (Some (JStr ''Invalid image format. Expected Buffer, file path, or base64 string.''))
                 None))))"

subsection \<open>The public operations\<close>

definition token_required :: string where
  "token_required = ''API token is required. Set it in constructor or use setApiToken().''"

text \<open>
  \<^verbatim>\<open>encodeURIComponent(s)\<close>: a \<^verbatim>\<open>URIError\<close> for a string with an unpaired surrogate,
  else the text the platform gives.
\<close>

definition encode_component :: "'n runtime \<Rightarrow> code_unit list \<Rightarrow> string + string" where
  "encode_component rt s =
     (if well_formed_utf16 s then Inr (encodeURIComponent rt s) else Inl uri_malformed_message)"

definition renderImage ::
  "('n::zero) runtime \<Rightarrow> client \<Rightarrow> image_arg \<Rightarrow> effect list \<times> ('n thrown + 'n json)" where
  "renderImage rt c img =
     (if \<not> truthy_str (apiToken c)
      then ([], Inl (throw_new (UnauthorizedError (number_toString rt)
                       (Some (JStr token_required)) None)))
      else
        (case encodeImage rt img of
           (es, Inl e) \<Rightarrow> (es, Inl e)
         | (es, Inr imageData) \<Rightarrow>
             (let r = request rt c ''/backend/render.php?action=render''
                        \<lparr>http_method = Some ''POST'',
                         body = Some (''{\"image\":'' @ json_quote rt imageData @ ''}''),
                         headers = None\<rparr>
              in (es @ fst r, snd r))))"

text \<open>
  In \<open>checkStatus\<close> and \<open>pollDeviceCode\<close> the endpoint is built, and the id
  encoded, before \<^verbatim>\<open>_request\<close> is entered: a \<^verbatim>\<open>URIError\<close> thrown there is not caught.
\<close>

definition checkStatus ::
  "('n::zero) runtime \<Rightarrow> client \<Rightarrow> code_unit list option
     \<Rightarrow> effect list \<times> ('n thrown + 'n json)" where
  "checkStatus rt c jobId =
     (if \<not> truthy_str (apiToken c)
      then ([], Inl (throw_new (UnauthorizedError (number_toString rt)
                       (Some (JStr token_required)) None)))
      else
        (case jobId of
           None \<Rightarrow> ([], Inl (throw_new (BadRequestError (number_toString rt)
                               (Some (JStr ''jobId is required'')) None)))
         | Some j \<Rightarrow>
             if j = [] then
               ([], Inl (throw_new (BadRequestError (number_toString rt)
                           (Some (JStr ''jobId is required'')) None)))
             else
               (case encode_component rt j of
                  Inl m \<Rightarrow> ([], Inl (OtherError m))
                | Inr encoded \<Rightarrow>
                    request rt c
                      (''/backend/render.php?action=status&job_id='' @ encoded)
                      \<lparr>http_method = Some ''GET'', body = None, headers = None\<rparr>)))"

definition checkAccount ::
  "('n::zero) runtime \<Rightarrow> client \<Rightarrow> effect list \<times> ('n thrown + 'n json)" where
  "checkAccount rt c =
     (if \<not> truthy_str (apiToken c)
      then ([], Inl (throw_new (UnauthorizedError (number_toString rt)
                       (Some (JStr token_required)) None)))
      else request rt c ''/backend/auth.php?action=check''
             \<lparr>http_method = Some ''GET'', body = None, headers = None\<rparr>)"

record device_options =
  app_name :: "string option"
  app_type :: "string option"
  app_version :: "string option"

text \<open>\<^verbatim>\<open>URLSearchParams\<close>: the pairs appended, and their serialisation.\<close>

definition append_param ::
  "string \<Rightarrow> string option \<Rightarrow> (string \<times> string) list \<Rightarrow> (string \<times> string) list" where
  "append_param k v params =
     (case v of None \<Rightarrow> params
      | Some s \<Rightarrow> if s \<noteq> [] then params @ [(k, s)] else params)"

fun join_amp :: "string list \<Rightarrow> string" where
  "join_amp [] = []"
| "join_amp [x] = x"
| "join_amp (x # y # ys) = x @ ''&'' @ join_amp (y # ys)"

definition params_toString :: "'n runtime \<Rightarrow> (string \<times> string) list \<Rightarrow> string" where
  "params_toString rt params =
     join_amp (map (\<lambda>kv. urlencode rt (fst kv) @ ''='' @ urlencode rt (snd kv)) params)"

definition requestDeviceCode ::
  "('n::zero) runtime \<Rightarrow> client \<Rightarrow> device_options \<Rightarrow> effect list \<times> ('n thrown + 'n json)" where
  "requestDeviceCode rt c options =
     (let params = append_param ''app_version'' (app_version options)
                     (append_param ''app_type'' (app_type options)
                       (append_param ''app_name'' (app_name options) []));
          queryString = params_toString rt params;
          endpoint = ''/backend/auth.php?action=request_device_code''
                       @ (if queryString \<noteq> [] then ''&'' @ queryString else [])
      in request rt c endpoint \<lparr>http_method = Some ''POST'', body = None, headers = None\<rparr>)"

definition pollDeviceCode ::
  "('n::zero) runtime \<Rightarrow> client \<Rightarrow> code_unit list option
     \<Rightarrow> effect list \<times> ('n thrown + 'n json)" where
  "pollDeviceCode rt c code =
     (case code of
        None \<Rightarrow> ([], Inl (throw_new (BadRequestError (number_toString rt)
                            (Some (JStr ''Device code is required'')) None)))
      | Some k \<Rightarrow>
          if k = [] then
            ([], Inl (throw_new (BadRequestError (number_toString rt)
                        (Some (JStr ''Device code is required'')) None)))
          else
            (case encode_component rt k of
               Inl m \<Rightarrow> ([], Inl (OtherError m))
             | Inr encoded \<Rightarrow>
                 request rt c
                   (''/backend/auth.php?action=poll_device_code&code='' @ encoded)
                   \<lparr>http_method = Some ''GET'', body = None, headers = None\<rparr>))"

section \<open>The vocabulary of the properties\<close>

text \<open>
  The class that stands for a status code in the classification table: 400, 401, 404,
  429 and 500 have a class of their own, every other status the base class.
\<close>

definition spec_status_class :: "nat \<Rightarrow> string" where
  "spec_status_class code =
     (if code = 400 then ''BadRequestError''
      else if code = 401 then ''UnauthorizedError''
      else if code = 404 then ''NotFoundError''
      else if code = 429 then ''RateLimitError''
      else if code = 500 then ''ServerError''
      else ''RenderCADError'')"

text \<open>
  The value an error thrown for a response carries as its message, before \<^verbatim>\<open>Error\<close>
  turns it into a string.  For a body with \<^verbatim>\<open>success\<close> set to \<^verbatim>\<open>false\<close>: with a
  credential flag the body's \<^verbatim>\<open>message\<close> or else \<^verbatim>\<open>Invalid API token\<close>, without one the
  body's \<^verbatim>\<open>message\<close>, or else its \<^verbatim>\<open>error\<close>, or else \<^verbatim>\<open>Request failed\<close>.  For any other
  body: its \<^verbatim>\<open>message\<close>, or else its \<^verbatim>\<open>error\<close>, or else \<^verbatim>\<open>HTTP\<close> and the status.
  "Or else" passes over a value that is missing or falsy.
\<close>

definition or_value :: "('n::zero) json option \<Rightarrow> 'n json \<Rightarrow> 'n json" where
  "or_value a b = (case a of None \<Rightarrow> b | Some v \<Rightarrow> if truthy (Some v) then v else b)"

definition error_message_value :: "('n::zero) http_response \<Rightarrow> 'n json \<Rightarrow> 'n json" where
  "error_message_value resp data =
     (if get_prop data ''success'' = Some (JBool False) then
        (if get_prop data ''token_valid'' = Some (JBool False)
            \<or> get_prop data ''authenticated'' = Some (JBool False)
         then or_value (get_prop data ''message'') (JStr ''Invalid API token'')
         else or_value (get_prop data ''message'')
                (or_value (get_prop data ''error'') (JStr ''Request failed'')))
      else or_value (get_prop data ''message'')
             (or_value (get_prop data ''error'')
                (JStr (''HTTP '' @ string_of_nat (status resp)))))"









section \<open>Sample environments\<close>

text \<open>
  Concrete clients and environments on which the model is run: the transport answers
  every call with the given outcome, the file system every read with the given result;
  the text functions are simple stand-ins (\<open>extname\<close> takes the text from the last
  dot on, \<open>encodeURIComponent\<close> keeps the code units as characters); numbers are
  integers, printed in decimal.
\<close>

definition sample_number_toString :: "int \<Rightarrow> string" where
  "sample_number_toString n =
     (if n < 0 then CHR ''-'' # string_of_nat (nat (- n)) else string_of_nat (nat n))"

definition sample_extname :: "string \<Rightarrow> string" where
  "sample_extname p =
     (if CHR ''.'' \<in> set p then CHR ''.'' # rev (takeWhile (\<lambda>ch. ch \<noteq> CHR ''.'') (rev p))
      else [])"

definition sample_runtime :: "int fetch_outcome \<Rightarrow> (string + byte list) \<Rightarrow> int runtime" where
  "sample_runtime net file =
     \<lparr>fetch = (\<lambda>url config. net),
      readFile = (\<lambda>path. file),
      number_toString = sample_number_toString,
      extname = sample_extname,
      toLowerCase = (\<lambda>s. s),
      encodeURIComponent = map (\<lambda>u. char_of (unat u)),
      urlencode = (\<lambda>s. s),
      json_quote = (\<lambda>s. CHR 0x22 # s @ [CHR 0x22])\<rparr>"

definition answering :: "nat \<Rightarrow> int json option \<Rightarrow> int runtime" where
  "answering code parsed =
     sample_runtime (Resolved \<lparr>status = code, json = parsed\<rparr>) (Inl ''ENOENT: no such file'')"

definition sample_client :: client where
  "sample_client = new_client (Some ''tok'') None"

definition anonymous_client :: client where
  "anonymous_client = new_client None None"

definition get_options :: fetch_options where
  "get_options = \<lparr>http_method = Some ''GET'', body = None, headers = None\<rparr>"

section \<open>Shared facts\<close>

lemma string_of_nat_nonempty: "string_of_nat n \<noteq> []"
  by (subst string_of_nat.simps) simp

lemma js_or_left: "truthy a \<Longrightarrow> js_or a b = a"
  by (simp add: js_or_def)

lemma js_or_right: "\<not> truthy a \<Longrightarrow> js_or a b = b"
  by (simp add: js_or_def)

text \<open>A chain of \<^verbatim>\<open>||\<close> that ends in a value is a value.\<close>

lemma js_or_value: "js_or a (Some b) = Some (or_value a b)"
  by (cases a) (simp_all add: js_or_def or_value_def)

lemma or_value_js_or: "or_value (js_or a b) c = or_value a (or_value b c)"
  by (cases a; cases b) (simp_all add: js_or_def or_value_def)

lemma or_value_truthy: "truthy (Some b) \<Longrightarrow> truthy (Some (or_value a b))"
  by (cases a) (simp_all add: or_value_def)

lemma or_value_falsy: "\<not> truthy a \<Longrightarrow> or_value a b = b"
  by (cases a) (simp_all add: or_value_def)

text \<open>
  What \<^verbatim>\<open>throw new X(message, ...)\<close> throws for a truthy message value: the error with
  the string form of the value, or the \<^verbatim>\<open>TypeError\<close> of the conversion.
\<close>

lemma throw_new_base:
  "throw_new (RenderCADError pn (Some v) code r) =
     (case toString pn v of
        None \<Rightarrow> OtherError to_primitive_message
      | Some str \<Rightarrow>
          RenderCAD \<lparr>name = ''RenderCADError'', message = str, statusCode = code,
                     response = r\<rparr>)"
  by (simp add: RenderCADError_def split: option.splits)

lemma throw_new_subclass:
  assumes "truthy (Some v)"
  shows "throw_new (BadRequestError pn (Some v) r) =
           (case toString pn v of
              None \<Rightarrow> OtherError to_primitive_message
            | Some str \<Rightarrow>
                RenderCAD \<lparr>name = ''BadRequestError'', message = str, statusCode = Some 400,
                           response = r\<rparr>)"
    and "throw_new (UnauthorizedError pn (Some v) r) =
           (case toString pn v of
              None \<Rightarrow> OtherError to_primitive_message
            | Some str \<Rightarrow>
                RenderCAD \<lparr>name = ''UnauthorizedError'', message = str, statusCode = Some 401,
                           response = r\<rparr>)"
    and "throw_new (NotFoundError pn (Some v) r) =
           (case toString pn v of
              None \<Rightarrow> OtherError to_primitive_message
            | Some str \<Rightarrow>
                RenderCAD \<lparr>name = ''NotFoundError'', message = str, statusCode = Some 404,
                           response = r\<rparr>)"
    and "throw_new (RateLimitError pn (Some v) r) =
           (case toString pn v of
              None \<Rightarrow> OtherError to_primitive_message
            | Some str \<Rightarrow>
                RenderCAD \<lparr>name = ''RateLimitError'', message = str, statusCode = Some 429,
                           response = r\<rparr>)"
    and "throw_new (ServerError pn (Some v) r) =
           (case toString pn v of
              None \<Rightarrow> OtherError to_primitive_message
            | Some str \<Rightarrow>
                RenderCAD \<lparr>name = ''ServerError'', message = str, statusCode = Some 500,
                           response = r\<rparr>)"
  using assms
  by (simp_all add: BadRequestError_def UnauthorizedError_def NotFoundError_def
        RateLimitError_def ServerError_def RenderCADError_def as_subclass_def js_or_def
        split: option.splits)

text \<open>An error made from a text of the program itself.\<close>

lemma throw_new_text:
  assumes "str \<noteq> []"
  shows "throw_new (BadRequestError pn (Some (JStr str)) r) =
           RenderCAD \<lparr>name = ''BadRequestError'', message = str, statusCode = Some 400,
                      response = r\<rparr>"
    and "throw_new (UnauthorizedError pn (Some (JStr str)) r) =
           RenderCAD \<lparr>name = ''UnauthorizedError'', message = str, statusCode = Some 401,
                      response = r\<rparr>"
  using assms by (simp_all add: throw_new_subclass)

text \<open>The default text of a class, taken when the constructor gets no truthy message.\<close>

lemma constructor_defaults:
  assumes "\<not> truthy m"
  shows "BadRequestError pn m r =
           Inr \<lparr>name = ''BadRequestError'', message = ''Invalid request'',
                statusCode = Some 400, response = r\<rparr>"
    and "UnauthorizedError pn m r =
           Inr \<lparr>name = ''UnauthorizedError'', message = ''Invalid API token'',
                statusCode = Some 401, response = r\<rparr>"
    and "NotFoundError pn m r =
           Inr \<lparr>name = ''NotFoundError'', message = ''Resource not found'',
                statusCode = Some 404, response = r\<rparr>"
    and "RateLimitError pn m r =
           Inr \<lparr>name = ''RateLimitError'', message = ''Monthly limit exceeded'',
                statusCode = Some 429, response = r\<rparr>"
    and "ServerError pn m r =
           Inr \<lparr>name = ''ServerError'', message = ''Server error'',
                statusCode = Some 500, response = r\<rparr>"
  using assms
  by (simp_all add: BadRequestError_def UnauthorizedError_def NotFoundError_def
        RateLimitError_def ServerError_def RenderCADError_def as_subclass_def js_or_def)

lemma request_catch_wraps:
  "request_catch pn (Inl (OtherError m)) =
     Inl (RenderCAD \<lparr>name = ''RenderCADError'', message = ''Request failed: '' @ m,
                     statusCode = None, response = Some JNull\<rparr>)"
  by (simp add: throw_new_base)


lemma request_resolved:
  "fetch rt (baseUrl c @ endpoint) (request_config c options) = Resolved resp \<Longrightarrow>
   snd (request rt c endpoint options) =
     request_catch (number_toString rt) (request_try (number_toString rt) resp)"
  by (simp add: request_def Let_def)

lemma request_rejected:
  "fetch rt (baseUrl c @ endpoint) (request_config c options) = Rejected m \<Longrightarrow>
   snd (request rt c endpoint options) =
     request_catch (number_toString rt) (Inl (OtherError m))"
  by (simp add: request_def Let_def)

text \<open>Past their own checks, the operations are one call of the request layer.\<close>

lemma checkAccount_request:
  "truthy_str (apiToken c) \<Longrightarrow>
   checkAccount rt c = request rt c ''/backend/auth.php?action=check'' get_options"
  by (simp add: checkAccount_def get_options_def)

lemma checkStatus_request:
  "truthy_str (apiToken c) \<Longrightarrow> jobId \<noteq> [] \<Longrightarrow> well_formed_utf16 jobId \<Longrightarrow>
   checkStatus rt c (Some jobId) =
     request rt c (''/backend/render.php?action=status&job_id='' @ encodeURIComponent rt jobId)
       get_options"
  by (simp add: checkStatus_def encode_component_def get_options_def)

lemma pollDeviceCode_request:
  "code \<noteq> [] \<Longrightarrow> well_formed_utf16 code \<Longrightarrow>
   pollDeviceCode rt c (Some code) =
     request rt c (''/backend/auth.php?action=poll_device_code&code='' @ encodeURIComponent rt code)
       get_options"
  by (simp add: pollDeviceCode_def encode_component_def get_options_def)

lemma requestDeviceCode_request:
  "\<exists>endpoint. requestDeviceCode rt c options =
     request rt c endpoint \<lparr>http_method = Some ''POST'', body = None, headers = None\<rparr>"
  unfolding requestDeviceCode_def Let_def by blast

lemma renderImage_request:
  "truthy_str (apiToken c) \<Longrightarrow> encodeImage rt img = (es, Inr imageData) \<Longrightarrow>
   \<exists>options. renderImage rt c img =
     (es @ fst (request rt c ''/backend/render.php?action=render'' options),
      snd (request rt c ''/backend/render.php?action=render'' options))"
  by (auto simp: renderImage_def Let_def)

text \<open>
  The \<^verbatim>\<open>try\<close> block on a body with \<^verbatim>\<open>success === false\<close>: what is thrown depends on
  whether the message value converts to a string.
\<close>

lemma request_try_api_failure:
  assumes "json resp = Some data"
      and "get_prop data ''success'' = Some (JBool False)"
  shows "request_try pn resp =
           Inl (case toString pn (error_message_value resp data) of
                  None \<Rightarrow> OtherError to_primitive_message
                | Some str \<Rightarrow>
                    RenderCAD
                      \<lparr>name = (if get_prop data ''token_valid'' = Some (JBool False)
                                  \<or> get_prop data ''authenticated'' = Some (JBool False)
                               then ''UnauthorizedError'' else ''BadRequestError''),
                       message = str,
                       statusCode = Some (if get_prop data ''token_valid'' = Some (JBool False)
                                  \<or> get_prop data ''authenticated'' = Some (JBool False)
                               then 401 else 400),
                       response = Some data\<rparr>)"
proof -
  from assms(2) have "data \<noteq> JNull" by auto
  with assms show ?thesis
    by (simp add: request_try_def Let_def error_message_value_def js_or_value or_value_js_or
          throw_new_subclass or_value_truthy split: option.splits)
qed

text \<open>The \<^verbatim>\<open>try\<close> block on a body that is not \<^verbatim>\<open>null\<close> and does not say \<^verbatim>\<open>success === false\<close>.\<close>

lemma request_try_ok:
  assumes "json resp = Some data" "data \<noteq> JNull"
      and "get_prop data ''success'' \<noteq> Some (JBool False)"
      and "ok resp"
  shows "request_try pn resp = Inr data"
  using assms by (simp add: request_try_def)

lemma request_try_status:
  assumes "json resp = Some data" "data \<noteq> JNull"
      and "get_prop data ''success'' \<noteq> Some (JBool False)"
      and "\<not> ok resp"
  shows "request_try pn resp =
           Inl (case toString pn (error_message_value resp data) of
                  None \<Rightarrow> OtherError to_primitive_message
                | Some str \<Rightarrow>
                    RenderCAD
                      \<lparr>name = spec_status_class (status resp), message = str,
                       statusCode = Some (status resp), response = Some data\<rparr>)"
  using assms
  by (simp add: request_try_def Let_def error_message_value_def js_or_value or_value_js_or
        throw_new_subclass throw_new_base or_value_truthy string_of_nat_nonempty
        spec_status_class_def split: option.splits)

lemma request_try_unparsed:
  assumes "json resp = None"
  shows "request_try pn resp = request_try pn (resp\<lparr>json := Some (JObj [])\<rparr>)"
  using assms by (simp add: request_try_def ok_def Let_def)

text \<open>A response whose error is thrown: the request layer throws the same error.\<close>

lemma request_throws:
  assumes "fetch rt (baseUrl c @ endpoint) (request_config c options) = Resolved resp"
      and "request_try (number_toString rt) resp =
             Inl (case toString (number_toString rt) v of
                    None \<Rightarrow> OtherError to_primitive_message
                  | Some str \<Rightarrow> RenderCAD (mk str))"
      and "toString (number_toString rt) v = Some str"
  shows "snd (request rt c endpoint options) = Inl (RenderCAD (mk str))"
  using request_resolved [OF assms(1)] assms(2,3) by simp

lemma request_conversion_fails:
  assumes "fetch rt (baseUrl c @ endpoint) (request_config c options) = Resolved resp"
      and "request_try (number_toString rt) resp =
             Inl (case toString (number_toString rt) v of
                    None \<Rightarrow> OtherError to_primitive_message
                  | Some str \<Rightarrow> RenderCAD (mk str))"
      and "toString (number_toString rt) v = None"
  shows "snd (request rt c endpoint options) =
           Inl (RenderCAD \<lparr>name = ''RenderCADError'',
                  message = ''Request failed: '' @ to_primitive_message,
                  statusCode = None, response = Some JNull\<rparr>)"
  using request_resolved [OF assms(1)] assms(2,3) by (simp add: throw_new_base)

section \<open>The response classification\<close>

text \<open>
  Claim C3, amended.  Whenever the parsed body has \<^verbatim>\<open>success\<close> set to \<^verbatim>\<open>false\<close> and the
  message value of its error converts to a string, the call throws by the body alone,
  whatever the HTTP status is (the status does not occur in the statement, so it holds
  for 200 as for any other): with \<^verbatim>\<open>token_valid\<close> or \<^verbatim>\<open>authenticated\<close> set to \<^verbatim>\<open>false\<close>
  the credential error, otherwise the malformed-request error.  The error's message is
  the string form of the message value (for the credential error the body's \<^verbatim>\<open>message\<close>
  or else \<^verbatim>\<open>Invalid API token\<close>; for the other the body's \<^verbatim>\<open>message\<close>, or else its
  \<^verbatim>\<open>error\<close>, or else \<^verbatim>\<open>Request failed\<close>), and the body is attached.
\<close>

theorem api_failure_classified_by_body:
  assumes "fetch rt (baseUrl c @ endpoint) (request_config c options) = Resolved resp"
      and "json resp = Some data"
      and "get_prop data ''success'' = Some (JBool False)"
      and "toString (number_toString rt) (error_message_value resp data) = Some str"
  shows "\<exists>e. snd (request rt c endpoint options) = Inl (RenderCAD e)
           \<and> response e = Some data
           \<and> message e = str
           \<and> name e =
               (if get_prop data ''token_valid'' = Some (JBool False)
                   \<or> get_prop data ''authenticated'' = Some (JBool False)
                then ''UnauthorizedError'' else ''BadRequestError'')"
  using request_throws [OF assms(1) request_try_api_failure [OF assms(2,3)] assms(4)]
  by simp

theorem api_failure_classified_by_body_witness:
  "\<exists>e. snd (request (answering 200 (Some (JObj [(''success'', JBool False), (''token_valid'', JBool False)])))
                 sample_client ''/backend/auth.php?action=check'' get_options)
          = Inl (RenderCAD e)
       \<and> response e = Some (JObj [(''success'', JBool False), (''token_valid'', JBool False)])
       \<and> message e = ''Invalid API token''
       \<and> name e = ''UnauthorizedError''"
  using api_failure_classified_by_body
    [of "answering 200 (Some (JObj [(''success'', JBool False), (''token_valid'', JBool False)]))"
        sample_client "''/backend/auth.php?action=check''" get_options
        "\<lparr>status = 200, json = Some (JObj [(''success'', JBool False), (''token_valid'', JBool False)])\<rparr>"
        "JObj [(''success'', JBool False), (''token_valid'', JBool False)]"
        "''Invalid API token''"]
  by (simp add: answering_def sample_runtime_def error_message_value_def or_value_def)

text \<open>
  The claim as stated fails for a body whose \<^verbatim>\<open>message\<close> is an object with a property
  \<^verbatim>\<open>toString\<close>: \<^verbatim>\<open>Error\<close>'s constructor cannot convert it, the \<^verbatim>\<open>TypeError\<close> is thrown
  inside the \<^verbatim>\<open>try\<close> block, and the \<^verbatim>\<open>catch\<close> block throws the base error, without
  status code and without the body.
\<close>

theorem unconvertible_message_counterexample:
  "snd (request
          (answering 200
             (Some (JObj [(''success'', JBool False),
                          (''message'', JObj [(''toString'', JNum 0)])])))
          sample_client ''/backend/auth.php?action=check'' get_options)
     = Inl (RenderCAD
         \<lparr>name = ''RenderCADError'',
          message = ''Request failed: Cannot convert object to primitive value'',
          statusCode = None,
          response = Some JNull\<rparr>)"
  by (simp add: request_def answering_def sample_runtime_def request_try_def Let_def
        BadRequestError_def RenderCADError_def as_subclass_def js_or_def
        to_primitive_message_def)

text \<open>
  Claim C10, amended.  An error thrown for a body with \<^verbatim>\<open>success\<close> set to \<^verbatim>\<open>false\<close>
  whose message value converts to a string carries the status code of its class, 401
  for the credential error and 400 for the malformed-request error, whatever the HTTP
  status of the response was.
\<close>

theorem api_failure_status_code:
  assumes "fetch rt (baseUrl c @ endpoint) (request_config c options) = Resolved resp"
      and "json resp = Some data"
      and "get_prop data ''success'' = Some (JBool False)"
      and "toString (number_toString rt) (error_message_value resp data) = Some str"
  shows "\<exists>e. snd (request rt c endpoint options) = Inl (RenderCAD e)
           \<and> (if get_prop data ''token_valid'' = Some (JBool False)
                  \<or> get_prop data ''authenticated'' = Some (JBool False)
               then name e = ''UnauthorizedError'' \<and> statusCode e = Some 401
               else name e = ''BadRequestError'' \<and> statusCode e = Some 400)"
  using request_throws [OF assms(1) request_try_api_failure [OF assms(2,3)] assms(4)]
  by simp

theorem api_failure_status_code_witness:
  "\<exists>e. snd (request (answering 200 (Some (JObj [(''success'', JBool False), (''message'', JStr ''Image too large'')])))
                 sample_client ''/backend/auth.php?action=check'' get_options)
          = Inl (RenderCAD e)
       \<and> name e = ''BadRequestError'' \<and> statusCode e = Some 400"
  using api_failure_status_code
    [of "answering 200 (Some (JObj [(''success'', JBool False), (''message'', JStr ''Image too large'')]))"
        sample_client "''/backend/auth.php?action=check''" get_options
        "\<lparr>status = 200, json = Some (JObj [(''success'', JBool False), (''message'', JStr ''Image too large'')])\<rparr>"
        "JObj [(''success'', JBool False), (''message'', JStr ''Image too large'')]"
        "''Image too large''"]
  by (simp add: answering_def sample_runtime_def error_message_value_def or_value_def)

text \<open>
  The claim as stated fails for such a body whose \<^verbatim>\<open>message\<close> does not convert: under
  status 401 and with \<^verbatim>\<open>token_valid\<close> set to \<^verbatim>\<open>false\<close>, the error thrown is the base
  error and its status code is \<^verbatim>\<open>null\<close>.
\<close>

theorem unconvertible_message_status_counterexample:
  "snd (request
          (answering 401
             (Some (JObj [(''success'', JBool False), (''token_valid'', JBool False),
                          (''message'', JObj [(''toString'', JNum 0)])])))
          sample_client ''/backend/auth.php?action=check'' get_options)
     = Inl (RenderCAD
         \<lparr>name = ''RenderCADError'',
          message = ''Request failed: Cannot convert object to primitive value'',
          statusCode = None,
          response = Some JNull\<rparr>)"
  by (simp add: request_def answering_def sample_runtime_def request_try_def Let_def
        UnauthorizedError_def RenderCADError_def as_subclass_def js_or_def
        to_primitive_message_def)

text \<open>
  Claim C4, amended.  For a parsed body that is not \<^verbatim>\<open>null\<close> and does not have
  \<^verbatim>\<open>success\<close> set to \<^verbatim>\<open>false\<close>: a status from 200 to 299 returns the body unchanged;
  any other status, when the message value of the error (the body's \<^verbatim>\<open>message\<close>, or
  else its \<^verbatim>\<open>error\<close>, or else \<^verbatim>\<open>HTTP\<close> and the status) converts to a string, throws the
  class that stands for the status (400, 401, 404, 429, 500, and the base class for
  the rest), carrying that status code, the body, and that string as its message.
\<close>

theorem status_classification:
  assumes "fetch rt (baseUrl c @ endpoint) (request_config c options) = Resolved resp"
      and "json resp = Some data"
      and "data \<noteq> JNull"
      and "get_prop data ''success'' \<noteq> Some (JBool False)"
  shows "if 200 \<le> status resp \<and> status resp \<le> 299
         then snd (request rt c endpoint options) = Inr data
         else \<forall>str. toString (number_toString rt) (error_message_value resp data) = Some str \<longrightarrow>
                (\<exists>e. snd (request rt c endpoint options) = Inl (RenderCAD e)
                   \<and> name e = spec_status_class (status resp)
                   \<and> statusCode e = Some (status resp)
                   \<and> response e = Some data
                   \<and> message e = str)"
proof (cases "ok resp")
  case True
  then show ?thesis
    using request_resolved [OF assms(1)] request_try_ok [OF assms(2,3,4) True]
    by (simp add: ok_def)
next
  case False
  then have outside: "\<not> (200 \<le> status resp \<and> status resp \<le> 299)"
    by (simp add: ok_def)
  have "\<exists>e. snd (request rt c endpoint options) = Inl (RenderCAD e)
           \<and> name e = spec_status_class (status resp)
           \<and> statusCode e = Some (status resp)
           \<and> response e = Some data
           \<and> message e = str"
    if "toString (number_toString rt) (error_message_value resp data) = Some str" for str
    using request_throws [OF assms(1) request_try_status [OF assms(2,3,4) False] that]
    by simp
  then show ?thesis
    unfolding if_not_P [OF outside] by blast
qed

theorem status_classification_witness:
  "snd (request (answering 200 (Some (JObj [(''job_id'', JStr ''render_1'')])))
          sample_client ''/backend/auth.php?action=check'' get_options)
     = Inr (JObj [(''job_id'', JStr ''render_1'')])
   \<and> (\<exists>e. snd (request (answering 404 (Some (JObj [(''error'', JNum 7)]))) sample_client
                 ''/backend/auth.php?action=check'' get_options)
            = Inl (RenderCAD e)
          \<and> name e = ''NotFoundError'' \<and> statusCode e = Some 404
          \<and> response e = Some (JObj [(''error'', JNum 7)])
          \<and> message e = ''7'')"
  using status_classification
    [of "answering 200 (Some (JObj [(''job_id'', JStr ''render_1'')]))"
        sample_client "''/backend/auth.php?action=check''" get_options
        "\<lparr>status = 200, json = Some (JObj [(''job_id'', JStr ''render_1'')])\<rparr>"
        "JObj [(''job_id'', JStr ''render_1'')]"]
    status_classification
    [of "answering 404 (Some (JObj [(''error'', JNum 7)]))"
        sample_client "''/backend/auth.php?action=check''" get_options
        "\<lparr>status = 404, json = Some (JObj [(''error'', JNum 7)])\<rparr>" "JObj [(''error'', JNum 7)]"]
  by (simp add: answering_def sample_runtime_def spec_status_class_def error_message_value_def
        or_value_def sample_number_toString_def string_of_nat.simps digit_char_def)

text \<open>
  The claim as stated fails for the body \<^verbatim>\<open>null\<close>: reading \<^verbatim>\<open>data.success\<close> throws, and
  the \<^verbatim>\<open>catch\<close> block wraps that into the base error, also for status 200.
\<close>

theorem null_body_counterexample:
  "snd (request (answering 200 (Some JNull)) sample_client
          ''/backend/auth.php?action=check'' get_options)
     = Inl (RenderCAD
         \<lparr>name = ''RenderCADError'',
          message = ''Request failed: Cannot read properties of null (reading 'success')'',
          statusCode = None,
          response = Some JNull\<rparr>)"
  by (simp add: request_def answering_def sample_runtime_def request_try_def
        null_read_message_def RenderCADError_def)

text \<open>
  It fails as well for a body whose \<^verbatim>\<open>message\<close> does not convert to a string: under
  status 404 the error thrown is the base error, without status code and body.
\<close>

lemma unconvertible_message_not_found:
  "snd (request (answering 404 (Some (JObj [(''message'', JObj [(''toString'', JNum 0)])])))
          sample_client ''/backend/auth.php?action=check'' get_options)
     = Inl (RenderCAD
         \<lparr>name = ''RenderCADError'',
          message = ''Request failed: Cannot convert object to primitive value'',
          statusCode = None,
          response = Some JNull\<rparr>)"
  by (simp add: request_def answering_def sample_runtime_def request_try_def Let_def ok_def
        NotFoundError_def RenderCADError_def as_subclass_def js_or_def
        to_primitive_message_def)

text \<open>
  Claim C5, amended.  A response with status 429 and a parsed body other than \<^verbatim>\<open>null\<close>,
  the message value of whose error converts to a string, throws an error with the body
  attached.  It is the rate-limit error with status code 429 when the body does not
  have \<^verbatim>\<open>success\<close> set to \<^verbatim>\<open>false\<close>; when it has, the body decides, and the error is
  the credential or the malformed-request error.
\<close>

theorem rate_limit_unless_body_failure:
  assumes "fetch rt (baseUrl c @ endpoint) (request_config c options) = Resolved resp"
      and "status resp = 429"
      and "json resp = Some data"
      and "data \<noteq> JNull"
      and "toString (number_toString rt) (error_message_value resp data) = Some str"
  shows "\<exists>e. snd (request rt c endpoint options) = Inl (RenderCAD e)
           \<and> response e = Some data
           \<and> (if get_prop data ''success'' = Some (JBool False)
               then name e = ''UnauthorizedError'' \<or> name e = ''BadRequestError''
               else name e = ''RateLimitError'' \<and> statusCode e = Some 429)"
proof (cases "get_prop data ''success'' = Some (JBool False)")
  case True
  then show ?thesis
    using request_throws [OF assms(1) request_try_api_failure [OF assms(3) True] assms(5)]
    by simp
next
  case False
  have "\<not> ok resp"
    using assms(2) by (simp add: ok_def)
  from request_throws [OF assms(1) request_try_status [OF assms(3,4) False this] assms(5)]
  show ?thesis
    using False assms(2) by (simp add: spec_status_class_def)
qed

theorem rate_limit_unless_body_failure_witness:
  "\<exists>e. snd (request (answering 429 (Some (JObj [(''message'', JStr ''Monthly limit exceeded'')])))
                 sample_client ''/backend/auth.php?action=check'' get_options)
          = Inl (RenderCAD e)
       \<and> response e = Some (JObj [(''message'', JStr ''Monthly limit exceeded'')])
       \<and> name e = ''RateLimitError'' \<and> statusCode e = Some 429"
  using rate_limit_unless_body_failure
    [of "answering 429 (Some (JObj [(''message'', JStr ''Monthly limit exceeded'')]))"
        sample_client "''/backend/auth.php?action=check''" get_options
        "\<lparr>status = 429, json = Some (JObj [(''message'', JStr ''Monthly limit exceeded'')])\<rparr>"
        "JObj [(''message'', JStr ''Monthly limit exceeded'')]" "''Monthly limit exceeded''"]
  by (simp add: answering_def sample_runtime_def error_message_value_def or_value_def)

text \<open>
  The claim as stated fails for the body \<^verbatim>\<open>{success: false}\<close>: with status 429 the call
  throws the malformed-request error.
\<close>

theorem rate_limit_body_failure_counterexample:
  "snd (request (answering 429 (Some (JObj [(''success'', JBool False)]))) sample_client
          ''/backend/auth.php?action=check'' get_options)
     = Inl (RenderCAD
         \<lparr>name = ''BadRequestError'',
          message = ''Request failed'',
          statusCode = Some 400,
          response = Some (JObj [(''success'', JBool False)])\<rparr>)"
  by (simp add: request_def answering_def sample_runtime_def request_try_def
        BadRequestError_def RenderCADError_def as_subclass_def js_or_def)

text \<open>
  It fails as well, with the base error and neither status code nor body, for the body
  \<^verbatim>\<open>null\<close> and for a body whose \<^verbatim>\<open>message\<close> does not convert to a string.
\<close>

lemma rate_limit_other_exceptions:
  "snd (request (answering 429 (Some JNull)) sample_client
          ''/backend/auth.php?action=check'' get_options)
     = Inl (RenderCAD
         \<lparr>name = ''RenderCADError'',
          message = ''Request failed: Cannot read properties of null (reading 'success')'',
          statusCode = None,
          response = Some JNull\<rparr>)"
  "snd (request (answering 429 (Some (JObj [(''message'', JObj [(''toString'', JNum 0)])])))
          sample_client ''/backend/auth.php?action=check'' get_options)
     = Inl (RenderCAD
         \<lparr>name = ''RenderCADError'',
          message = ''Request failed: Cannot convert object to primitive value'',
          statusCode = None,
          response = Some JNull\<rparr>)"
  by (simp_all add: request_def answering_def sample_runtime_def request_try_def Let_def ok_def
        RateLimitError_def RenderCADError_def as_subclass_def js_or_def
        to_primitive_message_def null_read_message_def)

text \<open>
  Claim C6, amended.  When the parsed body (not \<^verbatim>\<open>null\<close>) has no truthy \<^verbatim>\<open>message\<close> and no
  truthy \<^verbatim>\<open>error\<close>, every error the request layer throws for the response has the
  message \<^verbatim>\<open>Invalid API token\<close> (credential error for a body with \<^verbatim>\<open>success\<close> set to
  \<^verbatim>\<open>false\<close>), \<^verbatim>\<open>Request failed\<close> (malformed-request error for such a body), or
  \<^verbatim>\<open>HTTP\<close> followed by the status (every error classified by the status).  The fixed
  default text of a class is the message its constructor takes when it is given none.
\<close>

theorem fallback_messages:
  fixes rt :: "('n::zero) runtime" and m r :: "'n json option"
  assumes "fetch rt (baseUrl c @ endpoint) (request_config c options) = Resolved resp"
      and "json resp = Some data"
      and "data \<noteq> JNull"
      and "\<not> truthy (get_prop data ''message'')"
      and "\<not> truthy (get_prop data ''error'')"
      and "\<not> truthy m"
  shows "(get_prop data ''success'' = Some (JBool False) \<or> \<not> ok resp \<longrightarrow>
            (\<exists>e. snd (request rt c endpoint options) = Inl (RenderCAD e)
               \<and> message e =
                     (if get_prop data ''success'' = Some (JBool False)
                      then (if get_prop data ''token_valid'' = Some (JBool False)
                               \<or> get_prop data ''authenticated'' = Some (JBool False)
                            then ''Invalid API token'' else ''Request failed'')
                      else ''HTTP '' @ string_of_nat (status resp))))
         \<and> (\<exists>e. BadRequestError pn m r = Inr e \<and> message e = ''Invalid request'')
         \<and> (\<exists>e. UnauthorizedError pn m r = Inr e \<and> message e = ''Invalid API token'')
         \<and> (\<exists>e. NotFoundError pn m r = Inr e \<and> message e = ''Resource not found'')
         \<and> (\<exists>e. RateLimitError pn m r = Inr e \<and> message e = ''Monthly limit exceeded'')
         \<and> (\<exists>e. ServerError pn m r = Inr e \<and> message e = ''Server error'')"
proof -
  let ?fallback = "if get_prop data ''success'' = Some (JBool False)
                      then (if get_prop data ''token_valid'' = Some (JBool False)
                               \<or> get_prop data ''authenticated'' = Some (JBool False)
                            then ''Invalid API token'' else ''Request failed'')
                      else ''HTTP '' @ string_of_nat (status resp)"
  have carried: "error_message_value resp data = JStr ?fallback"
    using assms(4,5) by (simp add: error_message_value_def or_value_falsy)
  then have conv: "toString (number_toString rt) (error_message_value resp data) = Some ?fallback"
    by simp
  have thrown: "\<exists>e. snd (request rt c endpoint options) = Inl (RenderCAD e)
               \<and> message e = ?fallback"
    if fails: "get_prop data ''success'' = Some (JBool False) \<or> \<not> ok resp"
  proof (cases "get_prop data ''success'' = Some (JBool False)")
    case True
    from request_throws [OF assms(1) request_try_api_failure [OF assms(2) True] conv]
    show ?thesis by simp
  next
    case False
    with fails have "\<not> ok resp" by simp
    from request_throws [OF assms(1) request_try_status [OF assms(2,3) False this] conv]
    show ?thesis by simp
  qed
  from thrown constructor_defaults [OF assms(6), of pn r] show ?thesis
    by simp
qed

theorem fallback_messages_witness:
  "(\<exists>e. snd (request (answering 500 (Some (JObj []))) sample_client
                ''/backend/auth.php?action=check'' get_options)
           = Inl (RenderCAD e)
         \<and> message e = ''HTTP 500'')
   \<and> (\<exists>e. ServerError sample_number_toString None (None :: int json option) = Inr e
         \<and> message e = ''Server error'')"
  using fallback_messages
    [of "answering 500 (Some (JObj []))" sample_client "''/backend/auth.php?action=check''"
        get_options "\<lparr>status = 500, json = Some (JObj [])\<rparr>" "JObj []" None
        sample_number_toString None]
  by (simp add: answering_def sample_runtime_def ok_def string_of_nat.simps digit_char_def)

text \<open>
  The claim as stated fails for status 404 with the body \<^verbatim>\<open>{}\<close>: the message of the
  not-found error is \<^verbatim>\<open>HTTP 404\<close>, not \<^verbatim>\<open>Resource not found\<close>.
\<close>

theorem fallback_message_counterexample:
  "snd (request (answering 404 (Some (JObj []))) sample_client
          ''/backend/auth.php?action=check'' get_options)
     = Inl (RenderCAD
         \<lparr>name = ''NotFoundError'',
          message = ''HTTP 404'',
          statusCode = Some 404,
          response = Some (JObj [])\<rparr>)"
  by (simp add: request_def answering_def sample_runtime_def request_try_def Let_def ok_def
        NotFoundError_def RenderCADError_def as_subclass_def js_or_def string_of_nat.simps
        digit_char_def)

text \<open>
  Claim C2, amended.  When \<^verbatim>\<open>fetch\<close> rejects, the call throws the base error whose
  message is \<^verbatim>\<open>Request failed:\<close> followed by the message of the failure, with no status
  code and no body.  When the response arrives and its body does not parse, the body is
  taken to be \<^verbatim>\<open>{}\<close>: a status from 200 to 299 returns \<^verbatim>\<open>{}\<close>, any other status throws
  the class of the status with the message \<^verbatim>\<open>HTTP\<close> followed by the status.
\<close>

theorem transport_failure_and_unparsed_body:
  "(fetch rt (baseUrl c @ endpoint) (request_config c options) = Rejected m \<longrightarrow>
      (\<exists>e. snd (request rt c endpoint options) = Inl (RenderCAD e)
         \<and> name e = ''RenderCADError''
         \<and> message e = ''Request failed: '' @ m
         \<and> statusCode e = None
         \<and> response e = Some JNull))
   \<and> (fetch rt (baseUrl c @ endpoint) (request_config c options) = Resolved resp
        \<and> json resp = None \<longrightarrow>
      (if 200 \<le> status resp \<and> status resp \<le> 299
       then snd (request rt c endpoint options) = Inr (JObj [])
       else \<exists>e. snd (request rt c endpoint options) = Inl (RenderCAD e)
              \<and> name e = spec_status_class (status resp)
              \<and> message e = ''HTTP '' @ string_of_nat (status resp)
              \<and> statusCode e = Some (status resp)
              \<and> response e = Some (JObj [])))"
proof (intro conjI impI)
  assume "fetch rt (baseUrl c @ endpoint) (request_config c options) = Rejected m"
  from request_rejected [OF this]
  show "\<exists>e. snd (request rt c endpoint options) = Inl (RenderCAD e)
         \<and> name e = ''RenderCADError''
         \<and> message e = ''Request failed: '' @ m
         \<and> statusCode e = None
         \<and> response e = Some JNull"
    by (simp add: throw_new_base)
next
  assume a: "fetch rt (baseUrl c @ endpoint) (request_config c options) = Resolved resp
             \<and> json resp = None"
  let ?pn = "number_toString rt"
  let ?resp = "resp\<lparr>json := Some (JObj [])\<rparr>"
  have run: "snd (request rt c endpoint options) = request_catch ?pn (request_try ?pn ?resp)"
    using a request_resolved [of rt c endpoint options resp] request_try_unparsed [of resp ?pn]
    by simp
  have body: "json ?resp = Some (JObj [])" "(JObj [] :: 'a json) \<noteq> JNull"
    "get_prop (JObj [] :: 'a json) ''success'' \<noteq> Some (JBool False)"
    by simp_all
  show "if 200 \<le> status resp \<and> status resp \<le> 299
       then snd (request rt c endpoint options) = Inr (JObj [])
       else \<exists>e. snd (request rt c endpoint options) = Inl (RenderCAD e)
              \<and> name e = spec_status_class (status resp)
              \<and> message e = ''HTTP '' @ string_of_nat (status resp)
              \<and> statusCode e = Some (status resp)
              \<and> response e = Some (JObj [])"
  proof (cases "ok ?resp")
    case True
    then show ?thesis
      using run request_try_ok [OF body True, of ?pn] by (simp add: ok_def)
  next
    case False
    from request_try_status [OF body False, of ?pn] False show ?thesis
      using run by (simp add: ok_def error_message_value_def or_value_def)
  qed
qed

theorem transport_failure_and_unparsed_body_witness:
  "\<exists>e. snd (request (sample_runtime (Rejected ''getaddrinfo ENOTFOUND rendercad.ai'') (Inl []))
                 sample_client ''/backend/auth.php?action=check'' get_options)
          = Inl (RenderCAD e)
       \<and> name e = ''RenderCADError''
       \<and> message e = ''Request failed: getaddrinfo ENOTFOUND rendercad.ai''
       \<and> statusCode e = None
       \<and> response e = Some JNull"
  using transport_failure_and_unparsed_body
    [of "sample_runtime (Rejected ''getaddrinfo ENOTFOUND rendercad.ai'') (Inl [])"
        sample_client "''/backend/auth.php?action=check''" get_options
        "''getaddrinfo ENOTFOUND rendercad.ai''"]
  by (simp add: sample_runtime_def)

text \<open>
  The claim as stated fails for a body that does not parse under status 200: the call
  returns \<^verbatim>\<open>{}\<close> and throws nothing.
\<close>

theorem unparsed_body_counterexample:
  "snd (request (answering 200 None) sample_client
          ''/backend/auth.php?action=check'' get_options)
     = Inr (JObj [])"
  by (simp add: request_def answering_def sample_runtime_def request_try_def Let_def ok_def)

section \<open>Preconditions checked before the request\<close>

text \<open>
  Claim C7.  On a client without a token (\<^verbatim>\<open>null\<close> or the empty string),
  \<open>renderImage\<close>, \<open>checkStatus\<close> and \<open>checkAccount\<close> throw the credential error with
  no effect at all: no network call, and for \<open>renderImage\<close> no file read, whatever the
  image argument is.
\<close>

theorem missing_token_fails_locally:
  assumes "\<not> truthy_str (apiToken c)"
  shows "\<exists>e. name e = ''UnauthorizedError''
           \<and> statusCode e = Some 401
           \<and> message e = token_required
           \<and> renderImage rt c img = ([], Inl (RenderCAD e))
           \<and> checkStatus rt c jobId = ([], Inl (RenderCAD e))
           \<and> checkAccount rt c = ([], Inl (RenderCAD e))"
proof -
  let ?e = "\<lparr>name = ''UnauthorizedError'', message = token_required, statusCode = Some 401,
             response = None\<rparr> :: 'a rc_error"
  have thrown: "throw_new (UnauthorizedError (number_toString rt) (Some (JStr token_required)) None)
          = RenderCAD ?e"
    by (rule throw_new_text) (simp add: token_required_def)
  have "name ?e = ''UnauthorizedError''" "statusCode ?e = Some 401"
    "message ?e = token_required"
    by simp_all
  moreover have "renderImage rt c img = ([], Inl (RenderCAD ?e))"
    using assms thrown by (simp add: renderImage_def)
  moreover have "checkStatus rt c jobId = ([], Inl (RenderCAD ?e))"
    using assms thrown by (simp add: checkStatus_def)
  moreover have "checkAccount rt c = ([], Inl (RenderCAD ?e))"
    using assms thrown by (simp add: checkAccount_def)
  ultimately show ?thesis by blast
qed

theorem missing_token_fails_locally_witness:
  "\<exists>e. name e = ''UnauthorizedError''
       \<and> statusCode e = Some 401
       \<and> message e = token_required
       \<and> renderImage (answering 200 (Some (JObj []))) anonymous_client (ImgStr ''./image.jpg'')
           = ([], Inl (RenderCAD e))
       \<and> checkStatus (answering 200 (Some (JObj []))) anonymous_client
           (Some (utf16 ''render_1''))
           = ([], Inl (RenderCAD e))
       \<and> checkAccount (answering 200 (Some (JObj []))) anonymous_client = ([], Inl (RenderCAD e))"
  using missing_token_fails_locally
    [of anonymous_client "answering 200 (Some (JObj []))" "ImgStr ''./image.jpg''"
        "Some (utf16 ''render_1'')"]
  by (simp add: anonymous_client_def new_client_def)

text \<open>
  Claim C8.  On a client with a token, \<open>checkStatus\<close> with an empty (or missing) job
  id throws the malformed-request error and makes no network call; so does
  \<open>pollDeviceCode\<close> with an empty (or missing) code, on any client.
\<close>

theorem empty_argument_fails_locally:
  assumes "truthy_str (apiToken c)" and "\<not> truthy_str jobId" and "\<not> truthy_str code"
  shows "(\<exists>e. checkStatus rt c jobId = ([], Inl (RenderCAD e))
            \<and> name e = ''BadRequestError''
            \<and> message e = ''jobId is required'')
         \<and> (\<exists>e. pollDeviceCode rt c' code = ([], Inl (RenderCAD e))
            \<and> name e = ''BadRequestError''
            \<and> message e = ''Device code is required'')"
proof
  have "checkStatus rt c jobId =
          ([], Inl (throw_new (BadRequestError (number_toString rt)
                      (Some (JStr ''jobId is required'')) None)))"
    using assms(1,2) by (cases jobId) (simp_all add: checkStatus_def)
  then show "\<exists>e. checkStatus rt c jobId = ([], Inl (RenderCAD e))
            \<and> name e = ''BadRequestError''
            \<and> message e = ''jobId is required''"
    by (simp add: throw_new_text)
next
  have "pollDeviceCode rt c' code =
          ([], Inl (throw_new (BadRequestError (number_toString rt)
                      (Some (JStr ''Device code is required'')) None)))"
    using assms(3) by (cases code) (simp_all add: pollDeviceCode_def)
  then show "\<exists>e. pollDeviceCode rt c' code = ([], Inl (RenderCAD e))
            \<and> name e = ''BadRequestError''
            \<and> message e = ''Device code is required''"
    by (simp add: throw_new_text)
qed

theorem empty_argument_fails_locally_witness:
  "(\<exists>e. checkStatus (answering 200 (Some (JObj []))) sample_client (Some [])
           = ([], Inl (RenderCAD e))
        \<and> name e = ''BadRequestError''
        \<and> message e = ''jobId is required'')
   \<and> (\<exists>e. pollDeviceCode (answering 200 (Some (JObj []))) sample_client (Some [])
           = ([], Inl (RenderCAD e))
        \<and> name e = ''BadRequestError''
        \<and> message e = ''Device code is required'')"
  using empty_argument_fails_locally
    [of sample_client "Some []" "Some []" "answering 200 (Some (JObj []))" sample_client]
  by (simp add: sample_client_def new_client_def)

section \<open>The image encoder\<close>


lemma startsWith_iff: "startsWith s p \<longleftrightarrow> (\<exists>r. s = p @ r)"
  by (induction s p rule: startsWith.induct) auto


lemma includes_str_iff: "includes_str s p \<longleftrightarrow> (\<exists>a b. s = a @ p @ b)"
proof (induction s)
  case Nil
  then show ?case by simp
next
  case (Cons c cs)
  show ?case
  proof
    assume "includes_str (c # cs) p"
    then consider "startsWith (c # cs) p" | "includes_str cs p" by auto
    then show "\<exists>a b. c # cs = a @ p @ b"
    proof cases
      case 1
      then obtain r where "c # cs = p @ r" by (auto simp: startsWith_iff)
      then have "c # cs = [] @ p @ r" by simp
      then show ?thesis by blast
    next
      case 2
      with Cons.IH obtain a b where "cs = a @ p @ b" by blast
      then have "c # cs = (c # a) @ p @ b" by simp
      then show ?thesis by blast
    qed
  next
    assume "\<exists>a b. c # cs = a @ p @ b"
    then obtain a b where ab: "c # cs = a @ p @ b" by blast
    show "includes_str (c # cs) p"
    proof (cases a)
      case Nil
      with ab have "startsWith (c # cs) p" by (auto simp: startsWith_iff)
      then show ?thesis by simp
    next
      case (Cons x a')
      with ab have "cs = a' @ p @ b" by simp
      with Cons.IH have "includes_str cs p" by blast
      then show ?thesis by simp
    qed
  qed
qed



text \<open>The padded base64 alphabet on the test vectors of RFC 4648.\<close>

lemma base64_vectors:
  "base64 [] = []"
  "base64 [0x66] = ''Zg==''"
  "base64 [0x66, 0x6f] = ''Zm8=''"
  "base64 [0x66, 0x6f, 0x6f] = ''Zm9v''"
  "base64 [0x66, 0x6f, 0x6f, 0x62] = ''Zm9vYg==''"
  "base64 [0x66, 0x6f, 0x6f, 0x62, 0x61] = ''Zm9vYmE=''"
  "base64 [0x66, 0x6f, 0x6f, 0x62, 0x61, 0x72] = ''Zm9vYmFy''"
  by (simp_all add: b64_char_def)








section \<open>Every call returns a body or throws\<close>



















text \<open>
  It fails as well for an id or a code with an unpaired surrogate: the \<^verbatim>\<open>URIError\<close> is
  thrown where the endpoint is built, outside the \<^verbatim>\<open>try\<close> block of \<^verbatim>\<open>_request\<close>.
\<close>

lemma lone_surrogate_uri_error:
  "checkStatus (answering 200 (Some (JObj [(''success'', JBool True)]))) sample_client
     (Some [0xD800])
   = ([], Inl (OtherError ''URI malformed''))"
  "pollDeviceCode (answering 200 (Some (JObj [(''success'', JBool True)]))) sample_client
     (Some [0xDC00, 0x41])
   = ([], Inl (OtherError ''URI malformed''))"
  by (simp_all add: checkStatus_def pollDeviceCode_def encode_component_def is_high_def
        is_low_def uri_malformed_message_def sample_client_def new_client_def)

end
